theory Spec2Isabelle
  imports Main
begin

section \<open>Data model: positions, tokens and syntax nodes\<close>

text \<open>
  The plugin inspects an ESTree syntax tree and the token stream of the host linter.
  A position object is \<open>{line, column}\<close>; a location is \<open>{start, end}\<close>. The type
  parameter \<open>'p\<close> is the representation of a position object: the value
  \<open>position\<close> itself in the value-level reading, an address into a store of
  objects in the store-level reading used for the purity results at the end.
\<close>

record position =
  line :: nat
  column :: nat

record 'p source_location =
  start_pos :: 'p
  end_pos :: 'p

text \<open>A token: \<open>type\<close>, \<open>value\<close>, \<open>range\<close> (character offsets) and \<open>loc\<close>.\<close>

record 'p token =
  tok_type :: string
  tok_value :: string
  tok_range :: "nat \<times> nat"
  tok_loc :: "'p source_location"

text \<open>
  The value of a \<open>Literal\<close> node: \<open>null\<close>, a boolean, a number, a string, a regular
  expression object (source and flags) or a big integer. A number is a double; it is
  given here by the string that the built-in conversion of a number to a string yields
  for it (\<open>100\<close>, \<open>1.5\<close>, \<open>1e+21\<close>, \<open>1152921504606847000\<close>, \<open>Infinity\<close>). That
  conversion tells apart any two values a numeric literal can have, so every number has
  its representative; the digit algorithm of the conversion is the language's, not the
  program's, and is not reproduced.
\<close>

datatype js_value =
    JNull
  | JBool bool
  | JNumber string
  | JString string
  | JRegExp string string
  | JBigInt nat

record regex =
  pattern :: string
  flags :: string

record template_element =
  cooked :: "string option"

text \<open>
  The node kinds read by the name resolution. \<open>Literal value regex bigint\<close>,
  \<open>TemplateLiteral expressions quasis\<close>, \<open>MemberExpression object property computed\<close>,
  \<open>Property key computed kind\<close>, \<open>MethodDefinition key computed kind static\<close>,
  \<open>PropertyDefinition key computed static\<close>. \<open>OtherNode\<close> is any node of another kind
  (a program, a block, a variable declarator, a call, a binary expression, ...).
\<close>

datatype node =
    Literal js_value "regex option" "string option"
  | TemplateLiteral "node list" "template_element list"
  | Identifier string
  | PrivateIdentifier string
  | MemberExpression node node bool
  | ChainExpression node
  | Property node bool string
  | MethodDefinition node bool string bool
  | PropertyDefinition node bool bool
  | OtherNode string

datatype function_type = FunctionDeclaration | FunctionExpression | ArrowFunctionExpression

record ident_node =
  id_name :: string
  id_range :: "nat \<times> nat"

text \<open>
  A function-like node. Of a parameter and of the body only the range is read (to find
  tokens); \<open>parent\<close> is the node the parent reference points to and \<open>parent_loc\<close> its
  \<open>loc\<close>.
\<close>

record 'p function_node =
  fn_type :: function_type
  fn_id :: "ident_node option"
  params :: "(nat \<times> nat) list"
  async :: bool
  generator :: bool
  body_range :: "nat \<times> nat"
  fn_range :: "nat \<times> nat"
  fn_loc :: "'p source_location"
  parent :: node
  parent_loc :: "'p source_location"

text \<open>Reading a field of a node that does not carry it gives \<open>undefined\<close>, which is falsy.\<close>

fun is_Property :: "node \<Rightarrow> bool" where
  "is_Property (Property _ _ _) = True"
| "is_Property _ = False"

fun is_MethodDefinition :: "node \<Rightarrow> bool" where
  "is_MethodDefinition (MethodDefinition _ _ _ _) = True"
| "is_MethodDefinition _ = False"

fun is_PropertyDefinition :: "node \<Rightarrow> bool" where
  "is_PropertyDefinition (PropertyDefinition _ _ _) = True"
| "is_PropertyDefinition _ = False"

fun is_Literal :: "node \<Rightarrow> bool" where
  "is_Literal (Literal _ _ _) = True"
| "is_Literal _ = False"

fun is_TemplateLiteral :: "node \<Rightarrow> bool" where
  "is_TemplateLiteral (TemplateLiteral _ _) = True"
| "is_TemplateLiteral _ = False"

fun is_Identifier :: "node \<Rightarrow> bool" where
  "is_Identifier (Identifier _) = True"
| "is_Identifier _ = False"

fun is_PrivateIdentifier :: "node \<Rightarrow> bool" where
  "is_PrivateIdentifier (PrivateIdentifier _) = True"
| "is_PrivateIdentifier _ = False"

fun node_static :: "node \<Rightarrow> bool" where
  "node_static (MethodDefinition _ _ _ s) = s"
| "node_static (PropertyDefinition _ _ s) = s"
| "node_static _ = False"

fun node_computed :: "node \<Rightarrow> bool" where
  "node_computed (MemberExpression _ _ c) = c"
| "node_computed (Property _ c _) = c"
| "node_computed (MethodDefinition _ c _ _) = c"
| "node_computed (PropertyDefinition _ c _) = c"
| "node_computed _ = False"

fun node_key :: "node \<Rightarrow> node option" where
  "node_key (Property k _ _) = Some k"
| "node_key (MethodDefinition k _ _ _) = Some k"
| "node_key (PropertyDefinition k _ _) = Some k"
| "node_key _ = None"

fun node_kind :: "node \<Rightarrow> string option" where
  "node_kind (Property _ _ k) = Some k"
| "node_kind (MethodDefinition _ _ k _) = Some k"
| "node_kind _ = None"

fun node_name :: "node \<Rightarrow> string" where
  "node_name (Identifier n) = n"
| "node_name (PrivateIdentifier n) = n"
| "node_name _ = []"

text \<open>\<open>parent.key.type === "PrivateIdentifier"\<close>, read only where the parent has a key.\<close>

definition key_is_PrivateIdentifier :: "node \<Rightarrow> bool" where
  "key_is_PrivateIdentifier p = (case node_key p of Some k \<Rightarrow> is_PrivateIdentifier k | None \<Rightarrow> False)"

definition key_name :: "node \<Rightarrow> string" where
  "key_name p = (case node_key p of Some k \<Rightarrow> node_name k | None \<Rightarrow> [])"

section \<open>Errors\<close>

text \<open>Reading a property of \<open>null\<close> throws a \<open>TypeError\<close>; nothing else is thrown.\<close>

datatype error = TypeError

section \<open>Token utilities (ast-utils.js)\<close>

definition isOpeningParenToken :: "'p token \<Rightarrow> bool" where
  "isOpeningParenToken token \<longleftrightarrow> tok_value token = ''('' \<and> tok_type token = ''Punctuator''"

definition isArrowToken :: "'p token \<Rightarrow> bool" where
  "isArrowToken token \<longleftrightarrow> tok_value token = ''=>'' \<and> tok_type token = ''Punctuator''"

text \<open>
  Modelled from the spec: the token-stream interface of the host (its \<open>SourceCode\<close>
  object), which is not part of this repository. The stream is the list of tokens in
  source order. \<open>getFirstToken\<close> is the first token inside a node that satisfies the
  predicate, \<open>getTokenAfter\<close> the first one that starts at or after the end of the given
  node or token, \<open>getTokenBefore\<close> the last one that ends at or before its start; each is
  \<open>null\<close> (\<open>None\<close>) when there is none. The node or token is given by its range.
\<close>

definition anyToken :: "'p token \<Rightarrow> bool" where
  "anyToken token \<longleftrightarrow> True"

definition getFirstToken :: "'p token list \<Rightarrow> nat \<times> nat \<Rightarrow> ('p token \<Rightarrow> bool) \<Rightarrow> 'p token option" where
  "getFirstToken sourceCode r P =
     find P (filter (\<lambda>t. fst r \<le> fst (tok_range t) \<and> snd (tok_range t) \<le> snd r) sourceCode)"

definition getTokenAfter :: "'p token list \<Rightarrow> nat \<times> nat \<Rightarrow> ('p token \<Rightarrow> bool) \<Rightarrow> 'p token option" where
  "getTokenAfter sourceCode r P =
     find P (filter (\<lambda>t. snd r \<le> fst (tok_range t)) sourceCode)"

definition getTokenBefore :: "'p token list \<Rightarrow> nat \<times> nat \<Rightarrow> ('p token \<Rightarrow> bool) \<Rightarrow> 'p token option" where
  "getTokenBefore sourceCode r P =
     find P (rev (filter (\<lambda>t. snd (tok_range t) \<le> fst r) sourceCode))"

text \<open>
  \<open>getOpeningParenOfParams\<close>. \<open>sourceCode.getFirstToken(node.params[0])\<close> on a parameter
  without a token hands \<open>null\<close> to \<open>getTokenBefore\<close>, which reads its range;
  \<open>isOpeningParenToken(maybeParenToken)\<close> reads \<open>maybeParenToken.value\<close>: both throw on
  \<open>null\<close>. The other branch returns whatever the token query returns, \<open>null\<close> included.
\<close>

definition getOpeningParenOfParams :: "'p function_node \<Rightarrow> 'p token list \<Rightarrow> error + 'p token option" where
  "getOpeningParenOfParams node sourceCode =
     (if fn_type node = ArrowFunctionExpression \<and> length (params node) = 1 then
        (case getFirstToken sourceCode (params node ! 0) anyToken of
           None \<Rightarrow> Inl TypeError
         | Some argToken \<Rightarrow>
             (case getTokenBefore sourceCode (tok_range argToken) anyToken of
                None \<Rightarrow> Inl TypeError
              | Some maybeParenToken \<Rightarrow>
                  Inr (Some (if isOpeningParenToken maybeParenToken then maybeParenToken else argToken))))
      else
        (case fn_id node of
           Some ident \<Rightarrow> Inr (getTokenAfter sourceCode (id_range ident) isOpeningParenToken)
         | None \<Rightarrow> Inr (getFirstToken sourceCode (fn_range node) isOpeningParenToken)))"

section \<open>Static value and property-name resolution (ast-utils.js)\<close>

definition digit_char :: "nat \<Rightarrow> char" where
  "digit_char d = char_of (48 + d)"

fun decimal :: "nat \<Rightarrow> string" where
  "decimal n = (if n < 10 then [digit_char n] else decimal (n div 10) @ [digit_char (n mod 10)])"

text \<open>
  The built-in \<open>String(value)\<close> on the values a literal can carry: a number prints as
  the string it is given by, a regular expression object as \<open>/source/flags\<close>, a big
  integer as its decimal digits (without exponent, whatever its size).
\<close>

fun String_js :: "js_value \<Rightarrow> string" where
  "String_js JNull = ''null''"
| "String_js (JBool b) = (if b then ''true'' else ''false'')"
| "String_js (JNumber numberString) = numberString"
| "String_js (JString s) = s"
| "String_js (JRegExp src fl) = ''/'' @ src @ ''/'' @ fl"
| "String_js (JBigInt n) = decimal n"

text \<open>Truthiness of \<open>node.regex\<close> (an object or absent) and \<open>node.bigint\<close> (a string or absent).\<close>

definition truthy_regex :: "regex option \<Rightarrow> bool" where
  "truthy_regex r \<longleftrightarrow> r \<noteq> None"

definition truthy_string :: "string option \<Rightarrow> bool" where
  "truthy_string s \<longleftrightarrow> (case s of None \<Rightarrow> False | Some t \<Rightarrow> t \<noteq> [])"

fun isNullLiteral :: "node \<Rightarrow> bool" where
  "isNullLiteral (Literal v r b) \<longleftrightarrow> v = JNull \<and> \<not> truthy_regex r \<and> \<not> truthy_string b"
| "isNullLiteral _ \<longleftrightarrow> False"

fun getStaticStringValue :: "node \<Rightarrow> string option" where
  "getStaticStringValue (Literal v r b) =
     (if v = JNull then
        (if isNullLiteral (Literal v r b) then Some (String_js v)
         else if truthy_regex r then
           (case r of Some rx \<Rightarrow> Some (''/'' @ pattern rx @ ''/'' @ flags rx) | None \<Rightarrow> None)
         else if truthy_string b then b
         else None)
      else Some (String_js v))"
| "getStaticStringValue (TemplateLiteral es qs) =
     (if length es = 0 \<and> length qs = 1 then cooked (qs ! 0) else None)"
| "getStaticStringValue _ = None"

text \<open>
  \<open>getStaticPropertyName\<close>: \<open>prop\<close> is the key of a member-like node or the property of a
  member expression, and stays unset for every other node.
\<close>

definition staticNameOf :: "node \<Rightarrow> bool \<Rightarrow> string option" where
  "staticNameOf prop computed =
     (if is_Identifier prop \<and> \<not> computed then Some (node_name prop) else getStaticStringValue prop)"

fun getStaticPropertyName :: "node \<Rightarrow> string option" where
  "getStaticPropertyName (ChainExpression e) = getStaticPropertyName e"
| "getStaticPropertyName (Property k c kd) = staticNameOf k c"
| "getStaticPropertyName (PropertyDefinition k c s) = staticNameOf k c"
| "getStaticPropertyName (MethodDefinition k c kd s) = staticNameOf k c"
| "getStaticPropertyName (MemberExpression ob p c) = staticNameOf p c"
| "getStaticPropertyName _ = None"

section \<open>The function-kind labeler (ast-utils.js)\<close>

text \<open>\<open>tokens.join(" ")\<close> and the template \<open>'${name}'\<close>.\<close>

fun join :: "string \<Rightarrow> string list \<Rightarrow> string" where
  "join sep [] = []"
| "join sep [w] = w"
| "join sep (w # v # ws) = w @ sep @ join sep (v # ws)"

definition quoted :: "string \<Rightarrow> string" where
  "quoted name = CHR 0x27 # name @ [CHR 0x27]"

definition push :: "string list \<Rightarrow> string \<Rightarrow> string list" where
  "push tokens w = tokens @ [w]"

definition is_member_like :: "node \<Rightarrow> bool" where
  "is_member_like p \<longleftrightarrow> is_Property p \<or> is_MethodDefinition p \<or> is_PropertyDefinition p"

text \<open>The descriptor words pushed before the kind word: static, private, async, generator.\<close>

definition modifierWords :: "'p function_node \<Rightarrow> string list" where
  "modifierWords node =
     (let parent = parent node;
          tokens = [];
          tokens = (if is_MethodDefinition parent \<or> is_PropertyDefinition parent then
                      (let tokens = (if node_static parent then push tokens ''static'' else tokens)
                       in if \<not> node_computed parent \<and> key_is_PrivateIdentifier parent
                          then push tokens ''private'' else tokens)
                    else tokens);
          tokens = (if async node then push tokens ''async'' else tokens)
      in if generator node then push tokens ''generator'' else tokens)"

text \<open>The name suffix pushed after the kind word.\<close>

definition nameSuffix :: "'p function_node \<Rightarrow> string list \<Rightarrow> string list" where
  "nameSuffix node tokens =
     (let parent = parent node in
      if is_member_like parent then
        (if \<not> node_computed parent \<and> key_is_PrivateIdentifier parent
         then push tokens (''#'' @ key_name parent)
         else (case getStaticPropertyName parent of
                 Some name \<Rightarrow> push tokens (quoted name)
               | None \<Rightarrow> (case fn_id node of
                             Some ident \<Rightarrow> push tokens (quoted (id_name ident))
                           | None \<Rightarrow> tokens)))
      else (case fn_id node of
              Some ident \<Rightarrow> push tokens (quoted (id_name ident))
            | None \<Rightarrow> tokens))"

definition getFunctionNameWithKind :: "'p function_node \<Rightarrow> string" where
  "getFunctionNameWithKind node =
     (let parent = parent node;
          tokens = modifierWords node
      in if is_Property parent \<or> is_MethodDefinition parent then
           (if node_kind parent = Some ''constructor'' then ''constructor''
            else join '' ''
                   (nameSuffix node
                      (if node_kind parent = Some ''get'' then push tokens ''getter''
                       else if node_kind parent = Some ''set'' then push tokens ''setter''
                       else push tokens ''method'')))
         else if is_PropertyDefinition parent then
           join '' '' (nameSuffix node (push tokens ''method''))
         else
           join '' ''
             (nameSuffix node
                (push (if fn_type node = ArrowFunctionExpression then push tokens ''arrow'' else tokens)
                   ''function'')))"

section \<open>The head-location extractor (ast-utils.js)\<close>

text \<open>
  The variables \<open>start\<close> and \<open>end\<close> of \<open>getFunctionHeadLoc\<close> when its \<open>return\<close> is
  reached: references to position objects of the tree or of a token. Reading \<open>.loc\<close> of a
  \<open>null\<close> token throws.
\<close>

definition headPositions :: "'p function_node \<Rightarrow> 'p token list \<Rightarrow> error + ('p \<times> 'p)" where
  "headPositions node sourceCode =
     (let parent = parent node in
      if is_Property parent \<or> is_MethodDefinition parent \<or> is_PropertyDefinition parent then
        (case getOpeningParenOfParams node sourceCode of
           Inl e \<Rightarrow> Inl e
         | Inr None \<Rightarrow> Inl TypeError
         | Inr (Some t) \<Rightarrow> Inr (start_pos (parent_loc node), start_pos (tok_loc t)))
      else if fn_type node = ArrowFunctionExpression then
        (case getTokenBefore sourceCode (body_range node) isArrowToken of
           None \<Rightarrow> Inl TypeError
         | Some arrowToken \<Rightarrow> Inr (start_pos (tok_loc arrowToken), end_pos (tok_loc arrowToken)))
      else
        (case getOpeningParenOfParams node sourceCode of
           Inl e \<Rightarrow> Inl e
         | Inr None \<Rightarrow> Inl TypeError
         | Inr (Some t) \<Rightarrow> Inr (start_pos (fn_loc node), start_pos (tok_loc t))))"

text \<open>\<open>Object.assign({}, p)\<close> on a position: a new object with the same two fields.\<close>

definition Object_assign_empty :: "position \<Rightarrow> position" where
  "Object_assign_empty p = \<lparr>line = line p, column = column p\<rparr>"

definition getFunctionHeadLoc ::
  "position function_node \<Rightarrow> position token list \<Rightarrow> error + position source_location" where
  "getFunctionHeadLoc node sourceCode =
     (case headPositions node sourceCode of
        Inl e \<Rightarrow> Inl e
      | Inr (start, end') \<Rightarrow>
          Inr \<lparr>start_pos = Object_assign_empty start, end_pos = Object_assign_empty end'\<rparr>)"

section \<open>The rule (better-max-params.js)\<close>

text \<open>
  \<open>toUpperCase\<close> on the ASCII letters; every label starts with one of the lower-case
  words of the labeler.
\<close>

definition toUpperCase_char :: "char \<Rightarrow> char" where
  "toUpperCase_char c =
     (if 97 \<le> (of_char c :: nat) \<and> (of_char c :: nat) \<le> 122 then char_of ((of_char c :: nat) - 32) else c)"

definition toUpperCase :: "string \<Rightarrow> string" where
  "toUpperCase s = map toUpperCase_char s"

definition upperCaseFirst :: "string \<Rightarrow> string" where
  "upperCaseFirst string =
     (if length string \<le> 1 then toUpperCase string
      else toUpperCase [string ! 0] @ drop 1 string)"

text \<open>The violation record handed to \<open>context.report\<close>.\<close>

record violation =
  report_loc :: "position source_location"
  report_node :: "position function_node"
  messageId :: string
  data_name :: string
  data_count :: nat
  data_max :: "nat option"

definition buildError ::
  "position function_node \<Rightarrow> string \<Rightarrow> position token list \<Rightarrow> nat option \<Rightarrow> error + violation" where
  "buildError node name sourceCode constructorNumParams =
     (case getFunctionHeadLoc node sourceCode of
        Inl e \<Rightarrow> Inl e
      | Inr l \<Rightarrow>
          Inr \<lparr>report_loc = l, report_node = node, messageId = ''exceed'',
               data_name = upperCaseFirst name,
               data_count = length (params node),
               data_max = constructorNumParams\<rparr>)"

text \<open>
  The options object, validated by the host against the schema: \<open>func\<close> and
  \<open>constructor\<close> are integers with minimum 0, each optional (the default options of
  the rule give an absent key the value \<open>undefined\<close>). \<open>context.options[0]\<close> itself may
  be absent.
\<close>

record options =
  func :: "nat option"
  constructor :: "nat option"

text \<open>Truthiness of an optional number: \<open>undefined\<close> and \<open>0\<close> are falsy.\<close>

definition truthy_number :: "nat option \<Rightarrow> bool" where
  "truthy_number x \<longleftrightarrow> (case x of None \<Rightarrow> False | Some n \<Rightarrow> n \<noteq> 0)"

text \<open>The two variables set up by \<open>create\<close>; \<open>None\<close> is \<open>undefined\<close>.\<close>

record limits =
  funcNumParams :: "nat option"
  constructorNumParams :: "nat option"

definition create :: "options option \<Rightarrow> limits" where
  "create option =
     (case option of
        None \<Rightarrow> \<lparr>funcNumParams = None, constructorNumParams = None\<rparr>
      | Some opt \<Rightarrow>
          \<lparr>funcNumParams = (if truthy_number (func opt) then func opt else None),
           constructorNumParams = (if truthy_number (constructor opt) then constructor opt else None)\<rparr>)"

text \<open>\<open>count > limit\<close>: a comparison with \<open>undefined\<close> is false.\<close>

definition greater_js :: "nat \<Rightarrow> nat option \<Rightarrow> bool" where
  "greater_js c m \<longleftrightarrow> (case m of None \<Rightarrow> False | Some n \<Rightarrow> c > n)"

text \<open>\<open>checkFunction\<close>: the violations reported for one node (none or one), or the exception.\<close>

definition checkFunction ::
  "limits \<Rightarrow> position token list \<Rightarrow> position function_node \<Rightarrow> error + violation list" where
  "checkFunction lim sourceCode node =
     (let name = getFunctionNameWithKind node in
      if name = ''constructor'' then
        (if greater_js (length (params node)) (constructorNumParams lim) then
           (case buildError node name sourceCode (constructorNumParams lim) of
              Inl e \<Rightarrow> Inl e | Inr v \<Rightarrow> Inr [v])
         else Inr [])
      else if greater_js (length (params node)) (funcNumParams lim) then
        (case buildError node name sourceCode (funcNumParams lim) of
           Inl e \<Rightarrow> Inl e | Inr v \<Rightarrow> Inr [v])
      else Inr [])"

text \<open>
  The host calls \<open>checkFunction\<close> on every function declaration, function expression and
  arrow function of the tree, in traversal order; the reports accumulate and an exception
  ends the run.
\<close>

fun checkAll ::
  "limits \<Rightarrow> position token list \<Rightarrow> position function_node list \<Rightarrow> error + violation list" where
  "checkAll lim sourceCode [] = Inr []"
| "checkAll lim sourceCode (n # ns) =
     (case checkFunction lim sourceCode n of
        Inl e \<Rightarrow> Inl e
      | Inr vs \<Rightarrow> (case checkAll lim sourceCode ns of Inl e \<Rightarrow> Inl e | Inr ws \<Rightarrow> Inr (vs @ ws)))"

definition runRule ::
  "options option \<Rightarrow> position token list \<Rightarrow> position function_node list \<Rightarrow> error + violation list" where
  "runRule option sourceCode nodes = checkAll (create option) sourceCode nodes"

section \<open>The programs of the test suite (tests/lib/rules/better-max-params.js)\<close>

text \<open>
  The parser belongs to the host. For the programs of the test suite its output is written
  down here: each token is cut out of the source text by its offsets, and its \<open>loc\<close> is
  computed from the text (lines count from 1, columns from 0).
\<close>

definition newline :: char where
  "newline = CHR 0x0A"

definition positionAt :: "string \<Rightarrow> nat \<Rightarrow> position" where
  "positionAt text offset =
     \<lparr>line = 1 + length (filter (\<lambda>c. c = newline) (take offset text)),
      column = length (takeWhile (\<lambda>c. c \<noteq> newline) (rev (take offset text)))\<rparr>"

definition mkLoc :: "string \<Rightarrow> nat \<Rightarrow> nat \<Rightarrow> position source_location" where
  "mkLoc text a b = \<lparr>start_pos = positionAt text a, end_pos = positionAt text b\<rparr>"

definition mkToken :: "string \<Rightarrow> string \<Rightarrow> nat \<Rightarrow> nat \<Rightarrow> position token" where
  "mkToken text ty a b =
     \<lparr>tok_type = ty, tok_value = take (b - a) (drop a text), tok_range = (a, b),
      tok_loc = mkLoc text a b\<rparr>"

text \<open>The text covered by a span: the characters from its start up to, not including, its end.\<close>

definition position_le :: "position \<Rightarrow> position \<Rightarrow> bool" where
  "position_le p q \<longleftrightarrow> line p < line q \<or> (line p = line q \<and> column p \<le> column q)"

definition coveredText :: "string \<Rightarrow> position source_location \<Rightarrow> string" where
  "coveredText text l =
     map (\<lambda>offset. text ! offset)
       (filter (\<lambda>offset. position_le (start_pos l) (positionAt text offset)
                        \<and> \<not> position_le (end_pos l) (positionAt text offset))
          [0..<length text])"

text \<open>
  Modelled from the spec: the host reports a location as line, column, end line and end
  column with columns counted from 1, while \<open>loc\<close> counts them from 0 (this conversion is
  the host's, the test suite states its expectations after it).
\<close>

definition reportedSpan :: "position source_location \<Rightarrow> nat \<times> nat \<times> nat \<times> nat" where
  "reportedSpan l =
     (line (start_pos l), column (start_pos l) + 1, line (end_pos l), column (end_pos l) + 1)"

subsection \<open>\<open>function test(a, b, c) { ... }\<close>\<close>

definition code_test :: string where
  "code_test =
     ''function test(a, b, c) {'' @ [newline] @
     ''        // Just to make it longer'' @ [newline] @
     ''      }''"

definition tokens_test :: "position token list" where
  "tokens_test =
    [mkToken code_test ''Keyword'' 0 8,
     mkToken code_test ''Identifier'' 9 13,
     mkToken code_test ''Punctuator'' 13 14,
     mkToken code_test ''Identifier'' 14 15,
     mkToken code_test ''Punctuator'' 15 16,
     mkToken code_test ''Identifier'' 17 18,
     mkToken code_test ''Punctuator'' 18 19,
     mkToken code_test ''Identifier'' 20 21,
     mkToken code_test ''Punctuator'' 21 22,
     mkToken code_test ''Punctuator'' 23 24,
     mkToken code_test ''Punctuator'' 65 66]"

definition fn_test :: "position function_node" where
  "fn_test =
     \<lparr>fn_type = FunctionDeclaration,
      fn_id = Some \<lparr>id_name = ''test'', id_range = (9, 13)\<rparr>,
      params = [(14, 15), (17, 18), (20, 21)],
      async = False, generator = False,
      body_range = (23, 66), fn_range = (0, 66), fn_loc = mkLoc code_test 0 66,
      parent = OtherNode ''Program'', parent_loc = mkLoc code_test 0 66\<rparr>"

subsection \<open>\<open>class Test { constructor(a, b, c) {} wrongMethod(a, b, c, d, e) {} }\<close>\<close>

definition code_class :: string where
  "code_class =
     ''class Test {'' @ [newline] @
     ''        constructor(a, b, c) {}'' @ [newline] @
     ''        wrongMethod(a, b, c, d, e) {}'' @ [newline] @
     ''      }''"

definition tokens_class :: "position token list" where
  "tokens_class =
    [mkToken code_class ''Keyword'' 0 5,
     mkToken code_class ''Identifier'' 6 10,
     mkToken code_class ''Punctuator'' 11 12,
     mkToken code_class ''Identifier'' 21 32,
     mkToken code_class ''Punctuator'' 32 33,
     mkToken code_class ''Identifier'' 33 34,
     mkToken code_class ''Punctuator'' 34 35,
     mkToken code_class ''Identifier'' 36 37,
     mkToken code_class ''Punctuator'' 37 38,
     mkToken code_class ''Identifier'' 39 40,
     mkToken code_class ''Punctuator'' 40 41,
     mkToken code_class ''Punctuator'' 42 43,
     mkToken code_class ''Punctuator'' 43 44,
     mkToken code_class ''Identifier'' 53 64,
     mkToken code_class ''Punctuator'' 64 65,
     mkToken code_class ''Identifier'' 65 66,
     mkToken code_class ''Punctuator'' 66 67,
     mkToken code_class ''Identifier'' 68 69,
     mkToken code_class ''Punctuator'' 69 70,
     mkToken code_class ''Identifier'' 71 72,
     mkToken code_class ''Punctuator'' 72 73,
     mkToken code_class ''Identifier'' 74 75,
     mkToken code_class ''Punctuator'' 75 76,
     mkToken code_class ''Identifier'' 77 78,
     mkToken code_class ''Punctuator'' 78 79,
     mkToken code_class ''Punctuator'' 80 81,
     mkToken code_class ''Punctuator'' 81 82,
     mkToken code_class ''Punctuator'' 89 90]"

text \<open>
  The two function expressions of the class, in traversal order. A method's function
  expression starts at its parameter list; its parent is the method definition, which
  starts at the key.
\<close>

definition fn_constructor :: "position function_node" where
  "fn_constructor =
     \<lparr>fn_type = FunctionExpression, fn_id = None,
      params = [(33, 34), (36, 37), (39, 40)],
      async = False, generator = False,
      body_range = (42, 44), fn_range = (32, 44), fn_loc = mkLoc code_class 32 44,
      parent = MethodDefinition (Identifier ''constructor'') False ''constructor'' False,
      parent_loc = mkLoc code_class 21 44\<rparr>"

definition fn_wrongMethod :: "position function_node" where
  "fn_wrongMethod =
     \<lparr>fn_type = FunctionExpression, fn_id = None,
      params = [(65, 66), (68, 69), (71, 72), (74, 75), (77, 78)],
      async = False, generator = False,
      body_range = (80, 82), fn_range = (64, 82), fn_loc = mkLoc code_class 64 82,
      parent = MethodDefinition (Identifier ''wrongMethod'') False ''method'' False,
      parent_loc = mkLoc code_class 53 82\<rparr>"

subsection \<open>\<open>var test = function(a, b, c, d) {};\<close> and \<open>var test = (a, b, c, d) => {};\<close>\<close>

definition code_anon :: string where
  "code_anon = ''var test = function(a, b, c, d) {};''"

definition tokens_anon :: "position token list" where
  "tokens_anon =
    [mkToken code_anon ''Keyword'' 0 3,
     mkToken code_anon ''Identifier'' 4 8,
     mkToken code_anon ''Punctuator'' 9 10,
     mkToken code_anon ''Keyword'' 11 19,
     mkToken code_anon ''Punctuator'' 19 20,
     mkToken code_anon ''Identifier'' 20 21,
     mkToken code_anon ''Punctuator'' 21 22,
     mkToken code_anon ''Identifier'' 23 24,
     mkToken code_anon ''Punctuator'' 24 25,
     mkToken code_anon ''Identifier'' 26 27,
     mkToken code_anon ''Punctuator'' 27 28,
     mkToken code_anon ''Identifier'' 29 30,
     mkToken code_anon ''Punctuator'' 30 31,
     mkToken code_anon ''Punctuator'' 32 33,
     mkToken code_anon ''Punctuator'' 33 34,
     mkToken code_anon ''Punctuator'' 34 35]"

definition fn_anon :: "position function_node" where
  "fn_anon =
     \<lparr>fn_type = FunctionExpression, fn_id = None,
      params = [(20, 21), (23, 24), (26, 27), (29, 30)],
      async = False, generator = False,
      body_range = (32, 34), fn_range = (11, 34), fn_loc = mkLoc code_anon 11 34,
      parent = OtherNode ''VariableDeclarator'', parent_loc = mkLoc code_anon 4 34\<rparr>"

definition code_arrow :: string where
  "code_arrow = ''var test = (a, b, c, d) => {};''"

definition tokens_arrow :: "position token list" where
  "tokens_arrow =
    [mkToken code_arrow ''Keyword'' 0 3,
     mkToken code_arrow ''Identifier'' 4 8,
     mkToken code_arrow ''Punctuator'' 9 10,
     mkToken code_arrow ''Punctuator'' 11 12,
     mkToken code_arrow ''Identifier'' 12 13,
     mkToken code_arrow ''Punctuator'' 13 14,
     mkToken code_arrow ''Identifier'' 15 16,
     mkToken code_arrow ''Punctuator'' 16 17,
     mkToken code_arrow ''Identifier'' 18 19,
     mkToken code_arrow ''Punctuator'' 19 20,
     mkToken code_arrow ''Identifier'' 21 22,
     mkToken code_arrow ''Punctuator'' 22 23,
     mkToken code_arrow ''Punctuator'' 24 26,
     mkToken code_arrow ''Punctuator'' 27 28,
     mkToken code_arrow ''Punctuator'' 28 29,
     mkToken code_arrow ''Punctuator'' 29 30]"

definition fn_arrow :: "position function_node" where
  "fn_arrow =
     \<lparr>fn_type = ArrowFunctionExpression, fn_id = None,
      params = [(12, 13), (15, 16), (18, 19), (21, 22)],
      async = False, generator = False,
      body_range = (27, 29), fn_range = (11, 29), fn_loc = mkLoc code_arrow 11 29,
      parent = OtherNode ''VariableDeclarator'', parent_loc = mkLoc code_arrow 4 29\<rparr>"

subsection \<open>Arrow functions with one parameter, and an anonymous generator\<close>

text \<open>
  \<open>x => x\<close> as the value of a property, \<open>({ foo: x => x })\<close>: the one place where the
  extractor asks for the opening token of an arrow function is under a member-like
  parent.
\<close>

definition code_obj :: string where
  "code_obj = ''({ foo: x => x })''"

definition tokens_obj :: "position token list" where
  "tokens_obj =
    [mkToken code_obj ''Punctuator'' 0 1,
     mkToken code_obj ''Punctuator'' 1 2,
     mkToken code_obj ''Identifier'' 3 6,
     mkToken code_obj ''Punctuator'' 6 7,
     mkToken code_obj ''Identifier'' 8 9,
     mkToken code_obj ''Punctuator'' 10 12,
     mkToken code_obj ''Identifier'' 13 14,
     mkToken code_obj ''Punctuator'' 15 16,
     mkToken code_obj ''Punctuator'' 16 17]"

definition fn_obj :: "position function_node" where
  "fn_obj =
     \<lparr>fn_type = ArrowFunctionExpression, fn_id = None,
      params = [(8, 9)],
      async = False, generator = False,
      body_range = (13, 14), fn_range = (8, 14), fn_loc = mkLoc code_obj 8 14,
      parent = Property (Identifier ''foo'') False ''init'', parent_loc = mkLoc code_obj 3 14\<rparr>"

text \<open>The same arrow function as the initial value of a variable, without and with parentheses.\<close>

definition code_fx :: string where
  "code_fx = ''var f = x => x;''"

definition tokens_fx :: "position token list" where
  "tokens_fx =
    [mkToken code_fx ''Keyword'' 0 3,
     mkToken code_fx ''Identifier'' 4 5,
     mkToken code_fx ''Punctuator'' 6 7,
     mkToken code_fx ''Identifier'' 8 9,
     mkToken code_fx ''Punctuator'' 10 12,
     mkToken code_fx ''Identifier'' 13 14,
     mkToken code_fx ''Punctuator'' 14 15]"

definition fn_fx :: "position function_node" where
  "fn_fx =
     \<lparr>fn_type = ArrowFunctionExpression, fn_id = None,
      params = [(8, 9)],
      async = False, generator = False,
      body_range = (13, 14), fn_range = (8, 14), fn_loc = mkLoc code_fx 8 14,
      parent = OtherNode ''VariableDeclarator'', parent_loc = mkLoc code_fx 4 14\<rparr>"

definition code_fpx :: string where
  "code_fpx = ''var f = (x) => x;''"

definition tokens_fpx :: "position token list" where
  "tokens_fpx =
    [mkToken code_fpx ''Keyword'' 0 3,
     mkToken code_fpx ''Identifier'' 4 5,
     mkToken code_fpx ''Punctuator'' 6 7,
     mkToken code_fpx ''Punctuator'' 8 9,
     mkToken code_fpx ''Identifier'' 9 10,
     mkToken code_fpx ''Punctuator'' 10 11,
     mkToken code_fpx ''Punctuator'' 12 14,
     mkToken code_fpx ''Identifier'' 15 16,
     mkToken code_fpx ''Punctuator'' 16 17]"

definition fn_fpx :: "position function_node" where
  "fn_fpx =
     \<lparr>fn_type = ArrowFunctionExpression, fn_id = None,
      params = [(9, 10)],
      async = False, generator = False,
      body_range = (15, 16), fn_range = (8, 16), fn_loc = mkLoc code_fpx 8 16,
      parent = OtherNode ''VariableDeclarator'', parent_loc = mkLoc code_fpx 4 16\<rparr>"



section \<open>The store-level reading: which objects the two analyses create and write\<close>

text \<open>
  In the program a position is an object, \<open>loc.start\<close> is a reference to it, and the word
  list of the labeler is an array that \<open>push\<close> updates in place. The store holds the
  position objects and the arrays; an address is an index into it, a new object is
  appended. Here the tree and the tokens refer to their positions by address
  (\<open>'p = addr\<close>).
\<close>

type_synonym addr = nat

record store =
  positions :: "position list"
  arrays :: "string list list"

definition array_push :: "addr \<Rightarrow> string \<Rightarrow> store \<Rightarrow> store" where
  "array_push a w s = s\<lparr>arrays := (arrays s)[a := arrays s ! a @ [w]]\<rparr>"

definition modifierWords_st :: "'p function_node \<Rightarrow> addr \<Rightarrow> store \<Rightarrow> store" where
  "modifierWords_st node tokens s =
     (let parent = parent node;
          s = (if is_MethodDefinition parent \<or> is_PropertyDefinition parent then
                 (let s = (if node_static parent then array_push tokens ''static'' s else s)
                  in if \<not> node_computed parent \<and> key_is_PrivateIdentifier parent
                     then array_push tokens ''private'' s else s)
               else s);
          s = (if async node then array_push tokens ''async'' s else s)
      in if generator node then array_push tokens ''generator'' s else s)"

definition nameSuffix_st :: "'p function_node \<Rightarrow> addr \<Rightarrow> store \<Rightarrow> store" where
  "nameSuffix_st node tokens s =
     (let parent = parent node in
      if is_member_like parent then
        (if \<not> node_computed parent \<and> key_is_PrivateIdentifier parent
         then array_push tokens (''#'' @ key_name parent) s
         else (case getStaticPropertyName parent of
                 Some name \<Rightarrow> array_push tokens (quoted name) s
               | None \<Rightarrow> (case fn_id node of
                             Some ident \<Rightarrow> array_push tokens (quoted (id_name ident)) s
                           | None \<Rightarrow> s)))
      else (case fn_id node of
              Some ident \<Rightarrow> array_push tokens (quoted (id_name ident)) s
            | None \<Rightarrow> s))"

text \<open>\<open>const tokens = []\<close> creates the array; the result is the label and the store left behind.\<close>

definition getFunctionNameWithKind_st :: "'p function_node \<Rightarrow> store \<Rightarrow> string \<times> store" where
  "getFunctionNameWithKind_st node s0 =
     (let parent = parent node;
          tokens = length (arrays s0);
          s = s0\<lparr>arrays := arrays s0 @ [[]]\<rparr>;
          s = modifierWords_st node tokens s
      in if is_Property parent \<or> is_MethodDefinition parent then
           (if node_kind parent = Some ''constructor'' then (''constructor'', s)
            else
              (let s = (if node_kind parent = Some ''get'' then array_push tokens ''getter'' s
                        else if node_kind parent = Some ''set'' then array_push tokens ''setter'' s
                        else array_push tokens ''method'' s);
                   s = nameSuffix_st node tokens s
               in (join '' '' (arrays s ! tokens), s)))
         else if is_PropertyDefinition parent then
           (let s = array_push tokens ''method'' s;
                s = nameSuffix_st node tokens s
            in (join '' '' (arrays s ! tokens), s))
         else
           (let s = (if fn_type node = ArrowFunctionExpression then array_push tokens ''arrow'' s else s);
                s = array_push tokens ''function'' s;
                s = nameSuffix_st node tokens s
            in (join '' '' (arrays s ! tokens), s)))"

text \<open>
  \<open>Object.assign({}, source)\<close>: a new position object that receives the fields of the
  object at \<open>source\<close>.
\<close>

definition Object_assign_new :: "store \<Rightarrow> addr \<Rightarrow> addr \<times> store" where
  "Object_assign_new s source =
     (length (positions s),
      s\<lparr>positions := positions s @
           [\<lparr>line = line (positions s ! source), column = column (positions s ! source)\<rparr>]\<rparr>)"

definition getFunctionHeadLoc_st ::
  "addr function_node \<Rightarrow> addr token list \<Rightarrow> store \<Rightarrow> error + (addr source_location \<times> store)" where
  "getFunctionHeadLoc_st node sourceCode s =
     (case headPositions node sourceCode of
        Inl e \<Rightarrow> Inl e
      | Inr (start, end') \<Rightarrow>
          (let (a1, s1) = Object_assign_new s start;
               (a2, s2) = Object_assign_new s1 end'
           in Inr (\<lparr>start_pos = a1, end_pos = a2\<rparr>, s2)))"

text \<open>The positions a location refers to.\<close>

definition locContents :: "store \<Rightarrow> addr source_location \<Rightarrow> position source_location" where
  "locContents s l = \<lparr>start_pos = positions s ! start_pos l, end_pos = positions s ! end_pos l\<rparr>"

text \<open>
  Laying a tree out in a store: the positions of the tokens first, two per token, then the
  positions of the node and of its parent.
\<close>

fun storeTokens :: "addr \<Rightarrow> position token list \<Rightarrow> addr token list" where
  "storeTokens a [] = []"
| "storeTokens a (t # ts) =
     \<lparr>tok_type = tok_type t, tok_value = tok_value t, tok_range = tok_range t,
      tok_loc = \<lparr>start_pos = a, end_pos = a + 1\<rparr>\<rparr> # storeTokens (a + 2) ts"

definition storeNode :: "addr \<Rightarrow> position function_node \<Rightarrow> addr function_node" where
  "storeNode a n =
     \<lparr>fn_type = fn_type n, fn_id = fn_id n, params = params n, async = async n,
      generator = generator n, body_range = body_range n, fn_range = fn_range n,
      fn_loc = \<lparr>start_pos = a, end_pos = a + 1\<rparr>,
      parent = parent n,
      parent_loc = \<lparr>start_pos = a + 2, end_pos = a + 3\<rparr>\<rparr>"

definition storeOf :: "position token list \<Rightarrow> position function_node \<Rightarrow> store" where
  "storeOf ts n =
     \<lparr>positions =
        concat (map (\<lambda>t. [start_pos (tok_loc t), end_pos (tok_loc t)]) ts) @
        [start_pos (fn_loc n), end_pos (fn_loc n), start_pos (parent_loc n), end_pos (parent_loc n)],
      arrays = []\<rparr>"

section \<open>Auxiliary facts\<close>

lemma Object_assign_empty_id: "Object_assign_empty p = p"
  by (simp add: Object_assign_empty_def)

lemma getFunctionHeadLoc_eq:
  "getFunctionHeadLoc node sc =
     (case headPositions node sc of Inl e \<Rightarrow> Inl e
      | Inr (a, b) \<Rightarrow> Inr \<lparr>start_pos = a, end_pos = b\<rparr>)"
  by (simp add: getFunctionHeadLoc_def Object_assign_empty_id split: sum.splits)

lemma label_test: "getFunctionNameWithKind fn_test = ''function '' @ quoted ''test''"
  by code_simp

lemma label_constructor: "getFunctionNameWithKind fn_constructor = ''constructor''"
  by code_simp

lemma paren_wrongMethod:
  "getOpeningParenOfParams fn_wrongMethod tokens_class = Inr (Some (mkToken code_class ''Punctuator'' 64 65))"
  by code_simp

lemma paren_test:
  "getOpeningParenOfParams fn_test tokens_test = Inr (Some (mkToken code_test ''Punctuator'' 13 14))"
  by code_simp

lemma arrow_token_of_fn_arrow:
  "getTokenBefore tokens_arrow (body_range fn_arrow) isArrowToken = Some (mkToken code_arrow ''Punctuator'' 24 26)"
  by code_simp

section \<open>The limits of the rule\<close>

text \<open>
  What \<open>checkFunction\<close> does with a limit of at least 1: the node is reported exactly
  when it has more parameters than the limit of its category (the head location being
  defined, as it is on every well-formed tree).
\<close>

lemma positive_limit_enforced:
  "getFunctionHeadLoc node sourceCode = Inr l \<Longrightarrow>
   (if getFunctionNameWithKind node = ''constructor'' then constructor opt else func opt) = Some m \<Longrightarrow>
   0 < m \<Longrightarrow>
   checkFunction (create (Some opt)) sourceCode node =
     (if length (params node) > m
      then Inr [\<lparr>report_loc = l, report_node = node, messageId = ''exceed'',
                 data_name = upperCaseFirst (getFunctionNameWithKind node),
                 data_count = length (params node), data_max = Some m\<rparr>]
      else Inr [])"
  by (cases "getFunctionNameWithKind node = ''constructor''")
     (simp_all add: checkFunction_def create_def truthy_number_def greater_js_def buildError_def Let_def)


text \<open>
  Claim C1. For a function-like node with parameter count \<open>c\<close> and a configured limit \<open>m\<close>
  for its category, a violation is reported exactly when \<open>c > m\<close>. The program
  \<open>function test(a, b, c) {}\<close> under the options \<open>{func: 0}\<close>, which the schema of the rule
  admits (\<open>minimum: 0\<close>), has three parameters, is not a constructor, and is not reported:
  \<open>create\<close> reads the option through \<open>if (option.func)\<close>, which drops a limit of 0.
\<close>

theorem zero_func_limit_reports_nothing:
  "length (params fn_test) = 3
   \<and> getFunctionNameWithKind fn_test \<noteq> ''constructor''
   \<and> runRule (Some \<lparr>func = Some 0, constructor = None\<rparr>) tokens_test [fn_test] = Inr []"
  by code_simp

text \<open>
  Claim C2. A limit configured as 0 is read through a truthiness guard and behaves as an
  absent limit: \<open>create\<close> produces the same limits as without it, and no node of that
  category is reported, whatever its parameter count (the statement does not constrain
  \<open>params\<close>).
\<close>

theorem zero_limit_unchecked:
  "(func opt = Some 0 \<longrightarrow>
      create (Some opt) = create (Some (opt\<lparr>func := None\<rparr>))
      \<and> (getFunctionNameWithKind node \<noteq> ''constructor'' \<longrightarrow>
           checkFunction (create (Some opt)) sourceCode node = Inr []))
   \<and> (constructor opt = Some 0 \<longrightarrow>
      create (Some opt) = create (Some (opt\<lparr>constructor := None\<rparr>))
      \<and> (getFunctionNameWithKind node = ''constructor'' \<longrightarrow>
           checkFunction (create (Some opt)) sourceCode node = Inr []))"
  by (simp add: checkFunction_def create_def truthy_number_def greater_js_def Let_def)

theorem zero_limit_unchecked_witness:
  "create (Some \<lparr>func = Some 0, constructor = Some 0\<rparr>) = create (Some \<lparr>func = None, constructor = Some 0\<rparr>)
   \<and> create (Some \<lparr>func = Some 0, constructor = Some 0\<rparr>) = create (Some \<lparr>func = Some 0, constructor = None\<rparr>)
   \<and> length (params fn_test) = 3
   \<and> checkFunction (create (Some \<lparr>func = Some 0, constructor = Some 0\<rparr>)) tokens_test fn_test = Inr []
   \<and> length (params fn_constructor) = 3
   \<and> checkFunction (create (Some \<lparr>func = Some 0, constructor = Some 0\<rparr>)) tokens_class fn_constructor = Inr []"
proof -
  let ?opt = "\<lparr>func = Some 0, constructor = Some 0\<rparr>"
  have f: "func ?opt = Some 0" and c: "constructor ?opt = Some 0"
    by simp_all
  have n1: "getFunctionNameWithKind fn_test \<noteq> ''constructor''"
    by (simp add: label_test)
  have n2: "getFunctionNameWithKind fn_constructor = ''constructor''"
    by (rule label_constructor)
  have r1: "checkFunction (create (Some ?opt)) tokens_test fn_test = Inr []"
    using zero_limit_unchecked [of ?opt fn_test tokens_test] f n1 by blast
  have r2: "checkFunction (create (Some ?opt)) tokens_class fn_constructor = Inr []"
    using zero_limit_unchecked [of ?opt fn_constructor tokens_class] c n2 by blast
  have e1: "create (Some ?opt) = create (Some (?opt\<lparr>func := None\<rparr>))"
    using zero_limit_unchecked [of ?opt fn_test tokens_test] f by blast
  have e2: "create (Some ?opt) = create (Some (?opt\<lparr>constructor := None\<rparr>))"
    using zero_limit_unchecked [of ?opt fn_test tokens_test] c by blast
  have l1: "length (params fn_test) = 3" by (simp add: fn_test_def)
  have l2: "length (params fn_constructor) = 3" by (simp add: fn_constructor_def)
  from e1 e2 r1 r2 l1 l2 show ?thesis by simp
qed


section \<open>The head location\<close>

text \<open>
  Claim C4. For a function whose parent is a property, a method definition or a property
  definition the span starts at the start of the parent and ends at the start of the
  token that opens the parameters; for any other function that is not an arrow function
  it starts at the start of the node and ends at the start of that same token. For
  \<open>function test(a, b, c) { ... }\<close> under \<open>{func: 2}\<close> the reported span is line 1,
  columns 1 to 14, and covers exactly \<open>function test\<close>.
\<close>

theorem head_loc_of_member_and_plain_function:
  "(is_member_like (parent node) \<and> getOpeningParenOfParams node sourceCode = Inr (Some t) \<longrightarrow>
      getFunctionHeadLoc node sourceCode =
        Inr \<lparr>start_pos = start_pos (parent_loc node), end_pos = start_pos (tok_loc t)\<rparr>)
   \<and> (\<not> is_member_like (parent node) \<and> fn_type node \<noteq> ArrowFunctionExpression
        \<and> getOpeningParenOfParams node sourceCode = Inr (Some t) \<longrightarrow>
      getFunctionHeadLoc node sourceCode =
        Inr \<lparr>start_pos = start_pos (fn_loc node), end_pos = start_pos (tok_loc t)\<rparr>)
   \<and> runRule (Some \<lparr>func = Some 2, constructor = None\<rparr>) tokens_test [fn_test] =
        Inr [\<lparr>report_loc = \<lparr>start_pos = \<lparr>line = 1, column = 0\<rparr>,
                            end_pos = \<lparr>line = 1, column = 13\<rparr>\<rparr>,
              report_node = fn_test, messageId = ''exceed'',
              data_name = ''Function '' @ quoted ''test'', data_count = 3, data_max = Some 2\<rparr>]
   \<and> reportedSpan \<lparr>start_pos = \<lparr>line = 1, column = 0\<rparr>, end_pos = \<lparr>line = 1, column = 13\<rparr>\<rparr>
        = (1, 1, 1, 14)
   \<and> coveredText code_test \<lparr>start_pos = \<lparr>line = 1, column = 0\<rparr>, end_pos = \<lparr>line = 1, column = 13\<rparr>\<rparr>
        = ''function test''"
proof -
  have a: "is_member_like (parent node) \<and> getOpeningParenOfParams node sourceCode = Inr (Some t) \<longrightarrow>
      getFunctionHeadLoc node sourceCode =
        Inr \<lparr>start_pos = start_pos (parent_loc node), end_pos = start_pos (tok_loc t)\<rparr>"
    by (simp add: getFunctionHeadLoc_eq headPositions_def is_member_like_def)
  have b: "\<not> is_member_like (parent node) \<and> fn_type node \<noteq> ArrowFunctionExpression
        \<and> getOpeningParenOfParams node sourceCode = Inr (Some t) \<longrightarrow>
      getFunctionHeadLoc node sourceCode =
        Inr \<lparr>start_pos = start_pos (fn_loc node), end_pos = start_pos (tok_loc t)\<rparr>"
    by (simp add: getFunctionHeadLoc_eq headPositions_def is_member_like_def)
  have c: "runRule (Some \<lparr>func = Some 2, constructor = None\<rparr>) tokens_test [fn_test] =
        Inr [\<lparr>report_loc = \<lparr>start_pos = \<lparr>line = 1, column = 0\<rparr>,
                            end_pos = \<lparr>line = 1, column = 13\<rparr>\<rparr>,
              report_node = fn_test, messageId = ''exceed'',
              data_name = ''Function '' @ quoted ''test'', data_count = 3, data_max = Some 2\<rparr>]"
    by code_simp
  have d: "reportedSpan \<lparr>start_pos = \<lparr>line = 1, column = 0\<rparr>, end_pos = \<lparr>line = 1, column = 13\<rparr>\<rparr>
        = (1, 1, 1, 14)"
    by (simp add: reportedSpan_def)
  have e: "coveredText code_test \<lparr>start_pos = \<lparr>line = 1, column = 0\<rparr>, end_pos = \<lparr>line = 1, column = 13\<rparr>\<rparr>
        = ''function test''"
    by code_simp
  from a b c d e show ?thesis by blast
qed

theorem head_loc_of_member_and_plain_function_witness:
  "getFunctionHeadLoc fn_wrongMethod tokens_class =
      Inr \<lparr>start_pos = \<lparr>line = 3, column = 8\<rparr>, end_pos = \<lparr>line = 3, column = 19\<rparr>\<rparr>
   \<and> coveredText code_class \<lparr>start_pos = \<lparr>line = 3, column = 8\<rparr>, end_pos = \<lparr>line = 3, column = 19\<rparr>\<rparr>
        = ''wrongMethod''
   \<and> getFunctionHeadLoc fn_test tokens_test =
      Inr \<lparr>start_pos = \<lparr>line = 1, column = 0\<rparr>, end_pos = \<lparr>line = 1, column = 13\<rparr>\<rparr>"
proof -
  have m: "is_member_like (parent fn_wrongMethod)"
    by (simp add: fn_wrongMethod_def is_member_like_def)
  have n: "\<not> is_member_like (parent fn_test) \<and> fn_type fn_test \<noteq> ArrowFunctionExpression"
    by (simp add: fn_test_def is_member_like_def)
  have 1: "getFunctionHeadLoc fn_wrongMethod tokens_class =
      Inr \<lparr>start_pos = start_pos (parent_loc fn_wrongMethod),
           end_pos = start_pos (tok_loc (mkToken code_class ''Punctuator'' 64 65))\<rparr>"
    using head_loc_of_member_and_plain_function
            [of fn_wrongMethod tokens_class "mkToken code_class ''Punctuator'' 64 65"]
          m paren_wrongMethod by blast
  have 2: "getFunctionHeadLoc fn_test tokens_test =
      Inr \<lparr>start_pos = start_pos (fn_loc fn_test),
           end_pos = start_pos (tok_loc (mkToken code_test ''Punctuator'' 13 14))\<rparr>"
    using head_loc_of_member_and_plain_function
            [of fn_test tokens_test "mkToken code_test ''Punctuator'' 13 14"]
          n paren_test by blast
  have p1: "start_pos (parent_loc fn_wrongMethod) = \<lparr>line = 3, column = 8\<rparr>"
    by code_simp
  have p2: "start_pos (tok_loc (mkToken code_class ''Punctuator'' 64 65)) = \<lparr>line = 3, column = 19\<rparr>"
    by code_simp
  have p3: "start_pos (fn_loc fn_test) = \<lparr>line = 1, column = 0\<rparr>"
    by code_simp
  have p4: "start_pos (tok_loc (mkToken code_test ''Punctuator'' 13 14)) = \<lparr>line = 1, column = 13\<rparr>"
    by code_simp
  have t: "coveredText code_class \<lparr>start_pos = \<lparr>line = 3, column = 8\<rparr>, end_pos = \<lparr>line = 3, column = 19\<rparr>\<rparr>
        = ''wrongMethod''"
    by code_simp
  from 1 2 p1 p2 p3 p4 t show ?thesis by simp
qed

text \<open>
  Claim C5. For an arrow function whose parent is not member-like the span is the arrow
  token \<open>=>\<close> itself, from its start to its end; it does not depend on the parameter
  list or on \<open>async\<close>.
\<close>

theorem head_loc_of_arrow_function:
  "\<not> is_member_like (parent node) \<Longrightarrow> fn_type node = ArrowFunctionExpression \<Longrightarrow>
   getTokenBefore sourceCode (body_range node) isArrowToken = Some arrowToken \<Longrightarrow>
   getFunctionHeadLoc node sourceCode =
       Inr \<lparr>start_pos = start_pos (tok_loc arrowToken), end_pos = end_pos (tok_loc arrowToken)\<rparr>
   \<and> tok_value arrowToken = ''=>'' \<and> tok_type arrowToken = ''Punctuator''
   \<and> getFunctionHeadLoc (node\<lparr>async := a, params := ps\<rparr>) sourceCode
       = getFunctionHeadLoc node sourceCode"
proof -
  assume m: "\<not> is_member_like (parent node)" and ar: "fn_type node = ArrowFunctionExpression"
    and tk: "getTokenBefore sourceCode (body_range node) isArrowToken = Some arrowToken"
  have "isArrowToken arrowToken"
    using tk unfolding getTokenBefore_def by (metis find_Some_iff)
  then have v: "tok_value arrowToken = ''=>'' \<and> tok_type arrowToken = ''Punctuator''"
    by (simp add: isArrowToken_def)
  have h: "getFunctionHeadLoc node sourceCode =
       Inr \<lparr>start_pos = start_pos (tok_loc arrowToken), end_pos = end_pos (tok_loc arrowToken)\<rparr>"
    using m ar tk by (simp add: getFunctionHeadLoc_eq headPositions_def is_member_like_def)
  have i: "getFunctionHeadLoc (node\<lparr>async := a, params := ps\<rparr>) sourceCode
       = getFunctionHeadLoc node sourceCode"
    using m ar by (simp add: getFunctionHeadLoc_eq headPositions_def is_member_like_def)
  from v h i show ?thesis by simp
qed

theorem head_loc_of_arrow_function_witness:
  "getFunctionHeadLoc fn_arrow tokens_arrow =
      Inr \<lparr>start_pos = \<lparr>line = 1, column = 24\<rparr>, end_pos = \<lparr>line = 1, column = 26\<rparr>\<rparr>
   \<and> coveredText code_arrow \<lparr>start_pos = \<lparr>line = 1, column = 24\<rparr>, end_pos = \<lparr>line = 1, column = 26\<rparr>\<rparr>
        = ''=>''
   \<and> getFunctionHeadLoc (fn_arrow\<lparr>async := True, params := []\<rparr>) tokens_arrow =
      getFunctionHeadLoc fn_arrow tokens_arrow"
proof -
  have m: "\<not> is_member_like (parent fn_arrow)"
    by (simp add: fn_arrow_def is_member_like_def)
  have ar: "fn_type fn_arrow = ArrowFunctionExpression"
    by (simp add: fn_arrow_def)
  note w = head_loc_of_arrow_function [OF m ar arrow_token_of_fn_arrow, where a = True and ps = "[]"]
  have p: "tok_loc (mkToken code_arrow ''Punctuator'' 24 26) =
      \<lparr>start_pos = \<lparr>line = 1, column = 24\<rparr>, end_pos = \<lparr>line = 1, column = 26\<rparr>\<rparr>"
    by code_simp
  have t: "coveredText code_arrow \<lparr>start_pos = \<lparr>line = 1, column = 24\<rparr>, end_pos = \<lparr>line = 1, column = 26\<rparr>\<rparr>
        = ''=>''"
    by code_simp
  from w p t show ?thesis by simp
qed

section \<open>The label\<close>

text \<open>
  Claim C7. When the parent is a property or a method definition of kind
  \<open>constructor\<close>, the label is exactly \<open>constructor\<close>: the words pushed before (static,
  private, async, generator) are dropped and no name is appended.
\<close>

theorem constructor_label:
  "parent node = Property k c ''constructor'' \<or> parent node = MethodDefinition k c ''constructor'' s
   \<Longrightarrow> getFunctionNameWithKind node = ''constructor''"
  by (auto simp add: getFunctionNameWithKind_def Let_def)

theorem constructor_label_witness:
  "modifierWords (fn_constructor\<lparr>async := True, generator := True,
       parent := MethodDefinition (Identifier ''constructor'') False ''constructor'' True\<rparr>)
     = [''static'', ''async'', ''generator'']
   \<and> getFunctionNameWithKind (fn_constructor\<lparr>async := True, generator := True,
       parent := MethodDefinition (Identifier ''constructor'') False ''constructor'' True\<rparr>)
     = ''constructor''"
  using constructor_label [of "fn_constructor\<lparr>async := True, generator := True,
       parent := MethodDefinition (Identifier ''constructor'') False ''constructor'' True\<rparr>"
       "Identifier ''constructor''" False True]
  by (simp add: modifierWords_def fn_constructor_def push_def key_is_PrivateIdentifier_def)




section \<open>The token that opens the parameters\<close>

text \<open>
  Claim C6. For an arrow function with exactly one parameter the result is the first
  token of that parameter when the token before it is not an opening parenthesis (as in
  \<open>x => x\<close>), and that preceding token when it is one (as in \<open>(x) => x\<close>). A token
  precedes the parameter wherever the function is called on an arrow function: the
  extractor does so only under a member-like parent, after the key of the member. For
  every other function-like node the result is the first opening parenthesis after the
  name of the node when it has one, and the first opening parenthesis inside the node
  otherwise.
\<close>

theorem opening_paren_of_params:
  "(fn_type node = ArrowFunctionExpression \<and> length (params node) = 1
      \<and> getFirstToken sourceCode (params node ! 0) anyToken = Some argToken
      \<and> getTokenBefore sourceCode (tok_range argToken) anyToken = Some before \<longrightarrow>
    getOpeningParenOfParams node sourceCode =
      Inr (Some (if isOpeningParenToken before then before else argToken)))
   \<and> (\<not> (fn_type node = ArrowFunctionExpression \<and> length (params node) = 1)
        \<and> fn_id node = Some ident \<longrightarrow>
    getOpeningParenOfParams node sourceCode =
      Inr (getTokenAfter sourceCode (id_range ident) isOpeningParenToken))
   \<and> (\<not> (fn_type node = ArrowFunctionExpression \<and> length (params node) = 1)
        \<and> fn_id node = None \<longrightarrow>
    getOpeningParenOfParams node sourceCode =
      Inr (getFirstToken sourceCode (fn_range node) isOpeningParenToken))"
  by (simp add: getOpeningParenOfParams_def)

theorem opening_paren_of_params_witness:
  "getOpeningParenOfParams fn_obj tokens_obj = Inr (Some (mkToken code_obj ''Identifier'' 8 9))
   \<and> getOpeningParenOfParams fn_fx tokens_fx = Inr (Some (mkToken code_fx ''Identifier'' 8 9))
   \<and> getOpeningParenOfParams fn_fpx tokens_fpx = Inr (Some (mkToken code_fpx ''Punctuator'' 8 9))
   \<and> getOpeningParenOfParams fn_test tokens_test = Inr (Some (mkToken code_test ''Punctuator'' 13 14))
   \<and> getOpeningParenOfParams fn_anon tokens_anon = Inr (Some (mkToken code_anon ''Punctuator'' 19 20))"
proof -
  have a0: "fn_type fn_obj = ArrowFunctionExpression \<and> length (params fn_obj) = 1
      \<and> getFirstToken tokens_obj (params fn_obj ! 0) anyToken = Some (mkToken code_obj ''Identifier'' 8 9)
      \<and> getTokenBefore tokens_obj (tok_range (mkToken code_obj ''Identifier'' 8 9)) anyToken
           = Some (mkToken code_obj ''Punctuator'' 6 7)"
    by code_simp
  have n0: "\<not> isOpeningParenToken (mkToken code_obj ''Punctuator'' 6 7)"
    by code_simp
  have r0: "getOpeningParenOfParams fn_obj tokens_obj = Inr (Some (mkToken code_obj ''Identifier'' 8 9))"
    using opening_paren_of_params
            [of fn_obj tokens_obj "mkToken code_obj ''Identifier'' 8 9" "mkToken code_obj ''Punctuator'' 6 7"]
          a0 n0 by simp
  have a1: "fn_type fn_fx = ArrowFunctionExpression \<and> length (params fn_fx) = 1
      \<and> getFirstToken tokens_fx (params fn_fx ! 0) anyToken = Some (mkToken code_fx ''Identifier'' 8 9)
      \<and> getTokenBefore tokens_fx (tok_range (mkToken code_fx ''Identifier'' 8 9)) anyToken
           = Some (mkToken code_fx ''Punctuator'' 6 7)"
    by code_simp
  have n1: "\<not> isOpeningParenToken (mkToken code_fx ''Punctuator'' 6 7)"
    by code_simp
  have r1: "getOpeningParenOfParams fn_fx tokens_fx = Inr (Some (mkToken code_fx ''Identifier'' 8 9))"
    using opening_paren_of_params
            [of fn_fx tokens_fx "mkToken code_fx ''Identifier'' 8 9" "mkToken code_fx ''Punctuator'' 6 7"]
          a1 n1 by simp
  have a2: "fn_type fn_fpx = ArrowFunctionExpression \<and> length (params fn_fpx) = 1
      \<and> getFirstToken tokens_fpx (params fn_fpx ! 0) anyToken = Some (mkToken code_fpx ''Identifier'' 9 10)
      \<and> getTokenBefore tokens_fpx (tok_range (mkToken code_fpx ''Identifier'' 9 10)) anyToken
           = Some (mkToken code_fpx ''Punctuator'' 8 9)"
    by code_simp
  have n2: "isOpeningParenToken (mkToken code_fpx ''Punctuator'' 8 9)"
    by code_simp
  have r2: "getOpeningParenOfParams fn_fpx tokens_fpx = Inr (Some (mkToken code_fpx ''Punctuator'' 8 9))"
    using opening_paren_of_params
            [of fn_fpx tokens_fpx "mkToken code_fpx ''Identifier'' 9 10" "mkToken code_fpx ''Punctuator'' 8 9"]
          a2 n2 by simp
  have a3: "\<not> (fn_type fn_test = ArrowFunctionExpression \<and> length (params fn_test) = 1)
      \<and> fn_id fn_test = Some \<lparr>id_name = ''test'', id_range = (9, 13)\<rparr>"
    by (simp add: fn_test_def)
  have t3: "getTokenAfter tokens_test (id_range \<lparr>id_name = ''test'', id_range = (9, 13)\<rparr>) isOpeningParenToken
      = Some (mkToken code_test ''Punctuator'' 13 14)"
    by code_simp
  have r3: "getOpeningParenOfParams fn_test tokens_test = Inr (Some (mkToken code_test ''Punctuator'' 13 14))"
    using opening_paren_of_params
            [of fn_test tokens_test _ _ "\<lparr>id_name = ''test'', id_range = (9, 13)\<rparr>"]
          a3 t3 by simp
  have a4: "\<not> (fn_type fn_anon = ArrowFunctionExpression \<and> length (params fn_anon) = 1)
      \<and> fn_id fn_anon = None"
    by (simp add: fn_anon_def)
  have t4: "getFirstToken tokens_anon (fn_range fn_anon) isOpeningParenToken
      = Some (mkToken code_anon ''Punctuator'' 19 20)"
    by code_simp
  have r4: "getOpeningParenOfParams fn_anon tokens_anon = Inr (Some (mkToken code_anon ''Punctuator'' 19 20))"
    using opening_paren_of_params [of fn_anon tokens_anon] a4 t4 by simp
  from r0 r1 r2 r3 r4 show ?thesis by simp
qed

section \<open>Static string values\<close>

text \<open>
  Claim C9. For every literal the result is a string: the string form of the value when
  the value is not \<open>null\<close>; when it is \<open>null\<close>, the text \<open>/pattern/flags\<close> for a literal
  that carries \<open>regex\<close>, the digit text for one that carries a non-empty \<open>bigint\<close>, and
  the string \<open>null\<close> for the null literal. For a template literal without expressions
  and with exactly one quasi it is the cooked text of that quasi; for every other
  template literal and every other node kind it is \<open>null\<close>. (What the code calls an
  unknown literal, a literal with the value \<open>null\<close> that is neither the null literal nor
  carries \<open>regex\<close> or \<open>bigint\<close>, does not exist: \<open>isNullLiteral\<close> takes every such
  literal for the null literal.)
\<close>

theorem static_string_value:
  "(v \<noteq> JNull \<longrightarrow> getStaticStringValue (Literal v r b) = Some (String_js v))
   \<and> getStaticStringValue (Literal JNull None None) = Some ''null''
   \<and> getStaticStringValue (Literal JNull None (Some [])) = Some ''null''
   \<and> getStaticStringValue (Literal JNull (Some rx) b) = Some (''/'' @ pattern rx @ ''/'' @ flags rx)
   \<and> (digits \<noteq> [] \<longrightarrow> getStaticStringValue (Literal JNull None (Some digits)) = Some digits)
   \<and> getStaticStringValue (Literal v r b) \<noteq> None
   \<and> getStaticStringValue (TemplateLiteral [] [quasi]) = cooked quasi
   \<and> (es \<noteq> [] \<or> length qs \<noteq> 1 \<longrightarrow> getStaticStringValue (TemplateLiteral es qs) = None)
   \<and> (\<not> is_Literal n \<and> \<not> is_TemplateLiteral n \<longrightarrow> getStaticStringValue n = None)"
proof -
  have 1: "v \<noteq> JNull \<longrightarrow> getStaticStringValue (Literal v r b) = Some (String_js v)"
    by simp
  have 2: "getStaticStringValue (Literal JNull None None) = Some ''null''"
    by (simp add: truthy_regex_def truthy_string_def)
  have 3: "getStaticStringValue (Literal JNull None (Some [])) = Some ''null''"
    by (simp add: truthy_regex_def truthy_string_def)
  have 4: "getStaticStringValue (Literal JNull (Some rx) b) = Some (''/'' @ pattern rx @ ''/'' @ flags rx)"
    by (simp add: truthy_regex_def truthy_string_def)
  have 5: "digits \<noteq> [] \<longrightarrow> getStaticStringValue (Literal JNull None (Some digits)) = Some digits"
    by (simp add: truthy_regex_def truthy_string_def)
  have 6: "getStaticStringValue (Literal v r b) \<noteq> None"
    by (cases r; cases b) (auto simp add: truthy_regex_def truthy_string_def)
  have 7: "getStaticStringValue (TemplateLiteral [] [quasi]) = cooked quasi"
    by simp
  have 8: "es \<noteq> [] \<or> length qs \<noteq> 1 \<longrightarrow> getStaticStringValue (TemplateLiteral es qs) = None"
    by auto
  have 9: "\<not> is_Literal n \<and> \<not> is_TemplateLiteral n \<longrightarrow> getStaticStringValue n = None"
    by (cases n) simp_all
  from 1 2 3 4 5 6 7 8 9 show ?thesis by blast
qed

theorem static_string_value_witness:
  "getStaticStringValue (Literal (JNumber ''1e+21'') None None) = Some ''1e+21''
   \<and> getStaticStringValue (Literal (JString ''b'') None None) = Some ''b''
   \<and> getStaticStringValue (Literal (JBool True) None None) = Some ''true''
   \<and> getStaticStringValue (Literal (JRegExp ''a'' ''g'') (Some \<lparr>pattern = ''a'', flags = ''g''\<rparr>) None)
        = Some ''/a/g''
   \<and> getStaticStringValue (Literal (JBigInt 123) None (Some ''123'')) = Some ''123''
   \<and> getStaticStringValue (Literal JNull (Some \<lparr>pattern = ''a'', flags = ''v''\<rparr>) None) = Some ''/a/v''
   \<and> getStaticStringValue (Literal JNull None (Some ''123'')) = Some ''123''
   \<and> getStaticStringValue (TemplateLiteral [] [\<lparr>cooked = Some ''b''\<rparr>]) = Some ''b''
   \<and> getStaticStringValue (TemplateLiteral [Identifier ''b''] [\<lparr>cooked = Some []\<rparr>, \<lparr>cooked = Some []\<rparr>]) = None
   \<and> getStaticStringValue (Identifier ''foo'') = None"
proof -
  have a: "getStaticStringValue (Literal (JNumber ''1e+21'') None None) = Some ''1e+21''"
    using static_string_value [of "JNumber ''1e+21''" None None] by simp
  have b: "getStaticStringValue (Literal (JString ''b'') None None) = Some ''b''"
    using static_string_value [of "JString ''b''" None None] by simp
  have b': "getStaticStringValue (Literal (JBool True) None None) = Some ''true''"
    using static_string_value [of "JBool True" None None] by simp
  have c: "getStaticStringValue (Literal (JRegExp ''a'' ''g'') (Some \<lparr>pattern = ''a'', flags = ''g''\<rparr>) None)
        = Some ''/a/g''"
    using static_string_value [of "JRegExp ''a'' ''g''" "Some \<lparr>pattern = ''a'', flags = ''g''\<rparr>" None] by simp
  have g: "getStaticStringValue (Literal (JBigInt 123) None (Some ''123'')) = Some (String_js (JBigInt 123))"
    using static_string_value [of "JBigInt 123" None "Some ''123''"] by simp
  have g': "String_js (JBigInt 123) = ''123''"
    by code_simp
  have h: "getStaticStringValue (Literal JNull (Some \<lparr>pattern = ''a'', flags = ''v''\<rparr>) None) = Some ''/a/v''"
    using static_string_value [where rx = "\<lparr>pattern = ''a'', flags = ''v''\<rparr>" and b = None] by simp
  have d: "getStaticStringValue (Literal JNull None (Some ''123'')) = Some ''123''"
    using static_string_value [where digits = "''123''"] by simp
  have t: "getStaticStringValue (TemplateLiteral [] [\<lparr>cooked = Some ''b''\<rparr>]) = Some ''b''"
    using static_string_value [where quasi = "\<lparr>cooked = Some ''b''\<rparr>"] by simp
  have e: "getStaticStringValue (TemplateLiteral [Identifier ''b''] [\<lparr>cooked = Some []\<rparr>, \<lparr>cooked = Some []\<rparr>]) = None"
    using static_string_value [where es = "[Identifier ''b'']" and qs = "[\<lparr>cooked = Some []\<rparr>, \<lparr>cooked = Some []\<rparr>]"]
    by simp
  have f: "getStaticStringValue (Identifier ''foo'') = None"
    using static_string_value [where n = "Identifier ''foo''"] by simp
  from a b b' c g g' h d t e f show ?thesis by simp
qed

section \<open>Purity and idempotence\<close>

text \<open>
  The store-level labeler computes the label of the value-level one; all it leaves in the
  store is its own word array. The store-level extractor appends the two copies it
  returns.
\<close>

lemma array_push_last:
  "array_push (length xs) w (s\<lparr>arrays := xs @ [ws]\<rparr>) = s\<lparr>arrays := xs @ [push ws w]\<rparr>"
  by (simp add: array_push_def push_def)

lemma modifierWords_st_last:
  "modifierWords_st node (length xs) (s\<lparr>arrays := xs @ [[]]\<rparr>) = s\<lparr>arrays := xs @ [modifierWords node]\<rparr>"
  by (simp add: modifierWords_st_def modifierWords_def Let_def array_push_last)

lemma nameSuffix_st_last:
  "nameSuffix_st node (length xs) (s\<lparr>arrays := xs @ [ws]\<rparr>) = s\<lparr>arrays := xs @ [nameSuffix node ws]\<rparr>"
  by (simp add: nameSuffix_st_def nameSuffix_def Let_def array_push_last split: option.splits)

lemma getFunctionNameWithKind_st_refines:
  "\<exists>ws. getFunctionNameWithKind_st node s = (getFunctionNameWithKind node, s\<lparr>arrays := arrays s @ [ws]\<rparr>)"
  by (auto simp add: getFunctionNameWithKind_st_def getFunctionNameWithKind_def Let_def
        modifierWords_st_last array_push_last nameSuffix_st_last)

lemma getFunctionHeadLoc_st_result:
  "headPositions node sc = Inr (a, b) \<Longrightarrow> a < length (positions s) \<Longrightarrow> b < length (positions s) \<Longrightarrow>
   getFunctionHeadLoc_st node sc s =
     Inr (\<lparr>start_pos = length (positions s), end_pos = Suc (length (positions s))\<rparr>,
          s\<lparr>positions := positions s @ [positions s ! a, positions s ! b]\<rparr>)"
  by (simp add: getFunctionHeadLoc_st_def Object_assign_new_def nth_append)

lemma getFunctionHeadLoc_st_error:
  "getFunctionHeadLoc_st node sc s = Inl e \<Longrightarrow> getFunctionHeadLoc_st node sc s' = Inl e"
  by (auto simp add: getFunctionHeadLoc_st_def Object_assign_new_def split: sum.splits prod.splits)

text \<open>
  Claim C10. Calling the labeler twice gives the same label, which does not depend on the
  store, and calling the extractor twice gives locations with the same contents (or the
  same exception). Neither call writes to an object that existed before it: the
  positions and arrays of the initial store are a prefix of the final one, and the
  locations returned are new objects.
\<close>

theorem analyses_pure_and_idempotent:
  "(getFunctionNameWithKind_st node s = (name1, s1) \<and> getFunctionNameWithKind_st node s1 = (name2, s2) \<longrightarrow>
      name2 = name1 \<and> name1 = getFunctionNameWithKind node
      \<and> positions s2 = positions s \<and> take (length (arrays s)) (arrays s2) = arrays s)
   \<and> (getFunctionHeadLoc_st node sourceCode s = Inr (loc1, s1)
        \<and> headPositions node sourceCode = Inr (a, b)
        \<and> a < length (positions s) \<and> b < length (positions s) \<longrightarrow>
      (\<exists>loc2 s2. getFunctionHeadLoc_st node sourceCode s1 = Inr (loc2, s2)
         \<and> locContents s2 loc2 = locContents s1 loc1
         \<and> locContents s1 loc1 = \<lparr>start_pos = positions s ! a, end_pos = positions s ! b\<rparr>
         \<and> take (length (positions s)) (positions s2) = positions s
         \<and> arrays s2 = arrays s
         \<and> length (positions s) \<le> start_pos loc1 \<and> length (positions s) \<le> end_pos loc1))
   \<and> (getFunctionHeadLoc_st node sourceCode s = Inl e \<longrightarrow>
        getFunctionHeadLoc_st node sourceCode s' = Inl e)"
proof -
  have L: "getFunctionNameWithKind_st node s = (name1, s1) \<and> getFunctionNameWithKind_st node s1 = (name2, s2) \<longrightarrow>
      name2 = name1 \<and> name1 = getFunctionNameWithKind node
      \<and> positions s2 = positions s \<and> take (length (arrays s)) (arrays s2) = arrays s"
  proof
    assume h: "getFunctionNameWithKind_st node s = (name1, s1) \<and> getFunctionNameWithKind_st node s1 = (name2, s2)"
    obtain ws where 1: "getFunctionNameWithKind_st node s = (getFunctionNameWithKind node, s\<lparr>arrays := arrays s @ [ws]\<rparr>)"
      using getFunctionNameWithKind_st_refines by blast
    obtain vs where 2: "getFunctionNameWithKind_st node s1 = (getFunctionNameWithKind node, s1\<lparr>arrays := arrays s1 @ [vs]\<rparr>)"
      using getFunctionNameWithKind_st_refines by blast
    from h 1 have n1: "name1 = getFunctionNameWithKind node" and e1: "s1 = s\<lparr>arrays := arrays s @ [ws]\<rparr>"
      by simp_all
    from h 2 have n2: "name2 = getFunctionNameWithKind node" and e2: "s2 = s1\<lparr>arrays := arrays s1 @ [vs]\<rparr>"
      by simp_all
    from n1 n2 e1 e2 show "name2 = name1 \<and> name1 = getFunctionNameWithKind node
      \<and> positions s2 = positions s \<and> take (length (arrays s)) (arrays s2) = arrays s"
      by simp
  qed
  have H: "getFunctionHeadLoc_st node sourceCode s = Inr (loc1, s1)
        \<and> headPositions node sourceCode = Inr (a, b)
        \<and> a < length (positions s) \<and> b < length (positions s) \<longrightarrow>
      (\<exists>loc2 s2. getFunctionHeadLoc_st node sourceCode s1 = Inr (loc2, s2)
         \<and> locContents s2 loc2 = locContents s1 loc1
         \<and> locContents s1 loc1 = \<lparr>start_pos = positions s ! a, end_pos = positions s ! b\<rparr>
         \<and> take (length (positions s)) (positions s2) = positions s
         \<and> arrays s2 = arrays s
         \<and> length (positions s) \<le> start_pos loc1 \<and> length (positions s) \<le> end_pos loc1)"
  proof
    assume h: "getFunctionHeadLoc_st node sourceCode s = Inr (loc1, s1)
        \<and> headPositions node sourceCode = Inr (a, b)
        \<and> a < length (positions s) \<and> b < length (positions s)"
    then have hp: "headPositions node sourceCode = Inr (a, b)"
      and va: "a < length (positions s)" and vb: "b < length (positions s)"
      by simp_all
    from h getFunctionHeadLoc_st_result [OF hp va vb]
    have l1: "loc1 = \<lparr>start_pos = length (positions s), end_pos = Suc (length (positions s))\<rparr>"
      and e1: "s1 = s\<lparr>positions := positions s @ [positions s ! a, positions s ! b]\<rparr>"
      by simp_all
    have va1: "a < length (positions s1)" and vb1: "b < length (positions s1)"
      using va vb e1 by simp_all
    have c1: "positions s1 ! a = positions s ! a" "positions s1 ! b = positions s ! b"
      using va vb e1 by (simp_all add: nth_append)
    note second = getFunctionHeadLoc_st_result [OF hp va1 vb1]
    have k1: "locContents s1 loc1 = \<lparr>start_pos = positions s ! a, end_pos = positions s ! b\<rparr>"
      using l1 e1 by (simp add: locContents_def nth_append)
    have k2: "locContents (s1\<lparr>positions := positions s1 @ [positions s1 ! a, positions s1 ! b]\<rparr>)
               \<lparr>start_pos = length (positions s1), end_pos = Suc (length (positions s1))\<rparr>
             = \<lparr>start_pos = positions s ! a, end_pos = positions s ! b\<rparr>"
      using c1 by (simp add: locContents_def nth_append)
    have t: "take (length (positions s))
               (positions (s1\<lparr>positions := positions s1 @ [positions s1 ! a, positions s1 ! b]\<rparr>))
             = positions s"
      using e1 by simp
    have ar: "arrays (s1\<lparr>positions := positions s1 @ [positions s1 ! a, positions s1 ! b]\<rparr>) = arrays s"
      using e1 by simp
    have fr: "length (positions s) \<le> start_pos loc1 \<and> length (positions s) \<le> end_pos loc1"
      using l1 by simp
    from second k1 k2 t ar fr
    show "\<exists>loc2 s2. getFunctionHeadLoc_st node sourceCode s1 = Inr (loc2, s2)
         \<and> locContents s2 loc2 = locContents s1 loc1
         \<and> locContents s1 loc1 = \<lparr>start_pos = positions s ! a, end_pos = positions s ! b\<rparr>
         \<and> take (length (positions s)) (positions s2) = positions s
         \<and> arrays s2 = arrays s
         \<and> length (positions s) \<le> start_pos loc1 \<and> length (positions s) \<le> end_pos loc1"
      by simp
  qed
  have E: "getFunctionHeadLoc_st node sourceCode s = Inl e \<longrightarrow>
        getFunctionHeadLoc_st node sourceCode s' = Inl e"
    using getFunctionHeadLoc_st_error by blast
  from L H E show ?thesis by blast
qed

theorem analyses_pure_and_idempotent_witness:
  "fst (getFunctionNameWithKind_st (storeNode 22 fn_test)
          (snd (getFunctionNameWithKind_st (storeNode 22 fn_test) (storeOf tokens_test fn_test))))
     = fst (getFunctionNameWithKind_st (storeNode 22 fn_test) (storeOf tokens_test fn_test))
   \<and> fst (getFunctionNameWithKind_st (storeNode 22 fn_test) (storeOf tokens_test fn_test))
     = ''function '' @ quoted ''test''
   \<and> headPositions (storeNode 22 fn_test) (storeTokens 0 tokens_test) = Inr (22, 4)
   \<and> length (positions (storeOf tokens_test fn_test)) = 26
   \<and> getFunctionHeadLoc_st (storeNode 22 fn_test) (storeTokens 0 tokens_test) (storeOf tokens_test fn_test)
     = Inr (\<lparr>start_pos = 26, end_pos = 27\<rparr>,
            (storeOf tokens_test fn_test)\<lparr>positions := positions (storeOf tokens_test fn_test) @
               [\<lparr>line = 1, column = 0\<rparr>, \<lparr>line = 1, column = 13\<rparr>]\<rparr>)
   \<and> (\<exists>loc2 s2.
         getFunctionHeadLoc_st (storeNode 22 fn_test) (storeTokens 0 tokens_test)
           ((storeOf tokens_test fn_test)\<lparr>positions := positions (storeOf tokens_test fn_test) @
               [\<lparr>line = 1, column = 0\<rparr>, \<lparr>line = 1, column = 13\<rparr>]\<rparr>) = Inr (loc2, s2)
         \<and> locContents s2 loc2 = \<lparr>start_pos = \<lparr>line = 1, column = 0\<rparr>, end_pos = \<lparr>line = 1, column = 13\<rparr>\<rparr>
         \<and> take 26 (positions s2) = positions (storeOf tokens_test fn_test)
         \<and> arrays s2 = arrays (storeOf tokens_test fn_test))
   \<and> getFunctionHeadLoc_st (storeNode 22 fn_test) [] (storeOf tokens_test fn_test) = Inl TypeError
   \<and> getFunctionHeadLoc_st (storeNode 22 fn_test) []
        ((storeOf tokens_test fn_test)\<lparr>positions := []\<rparr>) = Inl TypeError"
proof -
  let ?N = "storeNode 22 fn_test"
  let ?T = "storeTokens 0 tokens_test"
  let ?S = "storeOf tokens_test fn_test"
  let ?S1 = "?S\<lparr>positions := positions ?S @ [\<lparr>line = 1, column = 0\<rparr>, \<lparr>line = 1, column = 13\<rparr>]\<rparr>"
  have w2: "fst (getFunctionNameWithKind_st ?N ?S) = ''function '' @ quoted ''test''"
    by code_simp
  have hp: "headPositions ?N ?T = Inr (22, 4)"
    by code_simp
  have len: "length (positions ?S) = 26"
    by code_simp
  have first: "getFunctionHeadLoc_st ?N ?T ?S = Inr (\<lparr>start_pos = 26, end_pos = 27\<rparr>, ?S1)"
    by code_simp
  have lc: "locContents ?S1 \<lparr>start_pos = 26, end_pos = 27\<rparr>
              = \<lparr>start_pos = \<lparr>line = 1, column = 0\<rparr>, end_pos = \<lparr>line = 1, column = 13\<rparr>\<rparr>"
    by code_simp
  have e1: "getFunctionHeadLoc_st ?N [] ?S = Inl TypeError"
    by code_simp
  have w1: "fst (getFunctionNameWithKind_st ?N (snd (getFunctionNameWithKind_st ?N ?S)))
            = fst (getFunctionNameWithKind_st ?N ?S)"
  proof -
    note L = analyses_pure_and_idempotent
           [where node = ?N and s = ?S and ?name1.0 = "fst (getFunctionNameWithKind_st ?N ?S)"
              and ?s1.0 = "snd (getFunctionNameWithKind_st ?N ?S)"
              and ?name2.0 = "fst (getFunctionNameWithKind_st ?N (snd (getFunctionNameWithKind_st ?N ?S)))"
              and ?s2.0 = "snd (getFunctionNameWithKind_st ?N (snd (getFunctionNameWithKind_st ?N ?S)))",
            THEN conjunct1, THEN mp]
    have "getFunctionNameWithKind_st ?N ?S
            = (fst (getFunctionNameWithKind_st ?N ?S), snd (getFunctionNameWithKind_st ?N ?S))
          \<and> getFunctionNameWithKind_st ?N (snd (getFunctionNameWithKind_st ?N ?S))
            = (fst (getFunctionNameWithKind_st ?N (snd (getFunctionNameWithKind_st ?N ?S))),
               snd (getFunctionNameWithKind_st ?N (snd (getFunctionNameWithKind_st ?N ?S))))"
      by simp
    from L [OF this] show ?thesis by (rule conjunct1)
  qed
  have w3: "\<exists>loc2 s2. getFunctionHeadLoc_st ?N ?T ?S1 = Inr (loc2, s2)
         \<and> locContents s2 loc2 = \<lparr>start_pos = \<lparr>line = 1, column = 0\<rparr>, end_pos = \<lparr>line = 1, column = 13\<rparr>\<rparr>
         \<and> take 26 (positions s2) = positions ?S
         \<and> arrays s2 = arrays ?S"
  proof -
    note H = analyses_pure_and_idempotent
           [where node = ?N and sourceCode = ?T and s = ?S and ?loc1.0 = "\<lparr>start_pos = 26, end_pos = 27\<rparr>"
              and ?s1.0 = ?S1 and a = 22 and b = 4,
            THEN conjunct2, THEN conjunct1, THEN mp]
    have prem: "getFunctionHeadLoc_st ?N ?T ?S = Inr (\<lparr>start_pos = 26, end_pos = 27\<rparr>, ?S1)
        \<and> headPositions ?N ?T = Inr (22, 4)
        \<and> 22 < length (positions ?S) \<and> 4 < length (positions ?S)"
      using first hp len by simp
    from H [OF prem] obtain loc2 s2 where
      r: "getFunctionHeadLoc_st ?N ?T ?S1 = Inr (loc2, s2)"
         "locContents s2 loc2 = locContents ?S1 \<lparr>start_pos = 26, end_pos = 27\<rparr>"
         "take (length (positions ?S)) (positions s2) = positions ?S"
         "arrays s2 = arrays ?S"
      by blast
    from r(2) lc have c: "locContents s2 loc2
        = \<lparr>start_pos = \<lparr>line = 1, column = 0\<rparr>, end_pos = \<lparr>line = 1, column = 13\<rparr>\<rparr>"
      by (rule trans)
    from r(3) have t: "take 26 (positions s2) = positions ?S"
      by (simp only: len)
    from r(1) c t r(4) show ?thesis by blast
  qed
  have w4: "getFunctionHeadLoc_st ?N [] (?S\<lparr>positions := []\<rparr>) = Inl TypeError"
    using analyses_pure_and_idempotent
           [where node = ?N and sourceCode = "[]" and s = ?S and e = TypeError and s' = "?S\<lparr>positions := []\<rparr>",
            THEN conjunct2, THEN conjunct2, THEN mp, OF e1] .
  show ?thesis
    using w1 w2 hp len first w3 e1 w4 by (intro conjI)
qed

end
